theory Spec2Isabelle
  imports Main "HOL-Library.AList" "HOL-Library.Product_Lexorder"
begin

section \<open>Python strings\<close>

text \<open>
  A Python \<open>str\<close> is modelled as a \<open>string\<close>, one \<open>char\<close> per code point, so the model
  covers the code points below 256. \<open>isspace\<close> is \<open>str.isspace\<close> on that range: the
  characters that \<open>str.strip()\<close> removes.
\<close>

definition isspace :: "char \<Rightarrow> bool" where
  "isspace c = (of_char c \<in> {9, 10, 11, 12, 13, 28, 29, 30, 31, 32, 133, 160 :: nat})"

definition strip :: "string \<Rightarrow> string" where
  "strip s = rev (dropWhile isspace (rev (dropWhile isspace s)))"

text \<open>The two halves of \<open>strip\<close>: \<open>str.lstrip()\<close> and \<open>str.rstrip()\<close>.\<close>

definition lstrip :: "string \<Rightarrow> string" where
  "lstrip s = dropWhile isspace s"

definition rstrip :: "string \<Rightarrow> string" where
  "rstrip s = rev (dropWhile isspace (rev s))"

definition startswith :: "string \<Rightarrow> string \<Rightarrow> bool" where
  "startswith s p = (take (length p) s = p)"

definition endswith :: "string \<Rightarrow> string \<Rightarrow> bool" where
  "endswith s p = (length p \<le> length s \<and> drop (length s - length p) s = p)"

text \<open>\<open>sep.join(xs)\<close>.\<close>

fun join :: "string \<Rightarrow> string list \<Rightarrow> string" where
  "join sep [] = []"
| "join sep [x] = x"
| "join sep (x # y # ys) = x @ sep @ join sep (y # ys)"

text \<open>
  The slice \<open>text[:n]\<close> for a Python integer \<open>n\<close>: a negative bound counts from the end.
\<close>

definition slice_to :: "string \<Rightarrow> int \<Rightarrow> string" where
  "slice_to s n = (if 0 \<le> n then take (nat n) s else take (length s - nat (- n)) s)"

section \<open>JSON values and Python dictionaries\<close>

text \<open>
  The values \<open>json.loads\<close> returns; \<open>JNull\<close> is Python's \<open>None\<close>. A \<open>dict\<close> is an
  association list in insertion order with one entry per key.
\<close>

datatype json =
    JNull
  | JBool bool
  | JInt int
  | JString string
  | JArray "json list"
  | JObject "(string \<times> json) list"

text \<open>
  The exceptions that can leave a function of the program: the \<open>AttributeError\<close> of a
  method looked up on a value that lacks it, and \<open>ServiceError\<close>, which stands for
  whatever a call of an outside service raises, with its message.
\<close>

datatype exn = AttributeError | ServiceError string

text \<open>
  \<open>parsed.get(k)\<close>: the value at \<open>k\<close>, \<open>None\<close> for a missing key; only a \<open>dict\<close> has the
  method, on any other value the attribute lookup raises.
\<close>

fun py_get :: "json \<Rightarrow> string \<Rightarrow> exn + json" where
  "py_get (JObject kvs) k = Inr (case map_of kvs k of None \<Rightarrow> JNull | Some v \<Rightarrow> v)"
| "py_get _ k = Inl AttributeError"

fun keys :: "json \<Rightarrow> string list" where
  "keys (JObject kvs) = map fst kvs"
| "keys _ = []"

section \<open>A reference decoder for \<open>json.loads\<close>\<close>

text \<open>
  \<open>json.loads\<close> belongs to the Python library, so the functions of the program take the
  decoder as a parameter \<open>loads\<close>, with \<open>Inl msg\<close> for a raised exception whose \<open>str(e)\<close>
  is \<open>msg\<close>. The decoder below is used to run the program on concrete responses. It
  follows the library's scanner on JSON texts whose numbers are integers and whose strings
  have no \<open>\u\<close> escape; texts with other numbers or escapes are outside it and are
  reported as errors. Its message names the kind of failure only; the library's message
  is more specific and goes on with the position of the error.
\<close>

definition json_ws :: "char \<Rightarrow> bool" where
  "json_ws c = (c = CHR '' '' \<or> c = CHR 0x09 \<or> c = CHR 0x0A \<or> c = CHR 0x0D)"

definition skip_ws :: "string \<Rightarrow> string" where
  "skip_ws s = dropWhile json_ws s"

definition unescape :: "char \<Rightarrow> char option" where
  "unescape c =
     (if c = CHR 0x22 then Some (CHR 0x22)
      else if c = CHR 0x5C then Some (CHR 0x5C)
      else if c = CHR ''/'' then Some (CHR ''/'')
      else if c = CHR ''b'' then Some (CHR 0x08)
      else if c = CHR ''f'' then Some (CHR 0x0C)
      else if c = CHR ''n'' then Some (CHR 0x0A)
      else if c = CHR ''r'' then Some (CHR 0x0D)
      else if c = CHR ''t'' then Some (CHR 0x09)
      else None)"

fun scan_string :: "string \<Rightarrow> string \<Rightarrow> (string \<times> string) option" where
  "scan_string acc [] = None"
| "scan_string acc [c] = (if c = CHR 0x22 then Some (rev acc, []) else None)"
| "scan_string acc (c # e # cs) =
     (if c = CHR 0x22 then Some (rev acc, e # cs)
      else if c = CHR 0x5C then
        (case unescape e of None \<Rightarrow> None | Some d \<Rightarrow> scan_string (d # acc) cs)
      else if of_char c < (32 :: nat) then None
      else scan_string (c # acc) (e # cs))"

definition is_digit :: "char \<Rightarrow> bool" where
  "is_digit c = (48 \<le> (of_char c :: nat) \<and> (of_char c :: nat) \<le> 57)"

definition digits_value :: "string \<Rightarrow> int" where
  "digits_value ds = foldl (\<lambda>a d. 10 * a + (int (of_char d) - 48)) 0 ds"

definition scan_unsigned :: "string \<Rightarrow> (int \<times> string) option" where
  "scan_unsigned s =
     (case s of
        [] \<Rightarrow> None
      | c # cs \<Rightarrow>
          if \<not> is_digit c then None
          else
            let ds = (if c = CHR ''0'' then [c] else takeWhile is_digit s);
                rest = drop (length ds) s
            in case rest of
                 [] \<Rightarrow> Some (digits_value ds, rest)
               | r # _ \<Rightarrow>
                   if r = CHR ''.'' \<or> r = CHR ''e'' \<or> r = CHR ''E'' then None
                   else Some (digits_value ds, rest))"

definition scan_number :: "string \<Rightarrow> (json \<times> string) option" where
  "scan_number s =
     (case s of
        [] \<Rightarrow> None
      | c # cs \<Rightarrow>
          if c = CHR ''-'' then map_option (\<lambda>(n, rest). (JInt (- n), rest)) (scan_unsigned cs)
          else map_option (\<lambda>(n, rest). (JInt n, rest)) (scan_unsigned s))"

fun parse_value :: "nat \<Rightarrow> string \<Rightarrow> (json \<times> string) option"
  and parse_array :: "nat \<Rightarrow> json list \<Rightarrow> string \<Rightarrow> (json \<times> string) option"
  and parse_object :: "nat \<Rightarrow> (string \<times> json) list \<Rightarrow> string \<Rightarrow> (json \<times> string) option"
where
  "parse_value 0 s = None"
| "parse_value (Suc n) s =
     (case skip_ws s of
        [] \<Rightarrow> None
      | c # cs \<Rightarrow>
          if c = CHR ''{'' then
            (case skip_ws cs of
               [] \<Rightarrow> None
             | d # ds \<Rightarrow> if d = CHR ''}'' then Some (JObject [], ds)
                         else parse_object n [] (d # ds))
          else if c = CHR ''['' then
            (case skip_ws cs of
               [] \<Rightarrow> None
             | d # ds \<Rightarrow> if d = CHR '']'' then Some (JArray [], ds)
                         else parse_array n [] (d # ds))
          else if c = CHR 0x22 then
            map_option (\<lambda>(str, rest). (JString str, rest)) (scan_string [] cs)
          else if startswith (c # cs) ''null'' then Some (JNull, drop 4 (c # cs))
          else if startswith (c # cs) ''true'' then Some (JBool True, drop 4 (c # cs))
          else if startswith (c # cs) ''false'' then Some (JBool False, drop 5 (c # cs))
          else scan_number (c # cs))"
| "parse_array 0 acc s = None"
| "parse_array (Suc n) acc s =
     (case parse_value n s of
        None \<Rightarrow> None
      | Some (v, rest) \<Rightarrow>
          (case skip_ws rest of
             [] \<Rightarrow> None
           | c # cs \<Rightarrow>
               if c = CHR '','' then parse_array n (acc @ [v]) cs
               else if c = CHR '']'' then Some (JArray (acc @ [v]), cs)
               else None))"
| "parse_object 0 acc s = None"
| "parse_object (Suc n) acc s =
     (case skip_ws s of
        [] \<Rightarrow> None
      | q # cs \<Rightarrow>
          if q \<noteq> CHR 0x22 then None
          else
            (case scan_string [] cs of
               None \<Rightarrow> None
             | Some (k, rest) \<Rightarrow>
                 (case skip_ws rest of
                    [] \<Rightarrow> None
                  | c # cs2 \<Rightarrow>
                      if c \<noteq> CHR '':'' then None
                      else
                        (case parse_value n cs2 of
                           None \<Rightarrow> None
                         | Some (v, rest2) \<Rightarrow>
                             (case skip_ws rest2 of
                                [] \<Rightarrow> None
                              | c3 # cs3 \<Rightarrow>
                                  if c3 = CHR '','' then
                                    parse_object n (AList.update k v acc) cs3
                                  else if c3 = CHR ''}'' then
                                    Some (JObject (AList.update k v acc), cs3)
                                  else None)))))"

definition json_loads :: "string \<Rightarrow> string + json" where
  "json_loads s =
     (case parse_value (Suc (length s)) s of
        None \<Rightarrow> Inl ''Expecting value''
      | Some (v, rest) \<Rightarrow> if skip_ws rest = [] then Inr v else Inl ''Extra data'')"

section \<open>prompts.py\<close>

text \<open>
  Each template has one replacement field and no other brace, so \<open>str.format\<close> splices
  the value between the text before the field and the text after it. A template is kept
  as that pair. The en dash of \<open>2-3\<close> in the source lies beyond code point 255 and is
  written as its three UTF-8 bytes.
\<close>

type_synonym template = "string \<times> string"

definition format_prompt :: "template \<Rightarrow> string \<Rightarrow> string" where
  "format_prompt tpl v = fst tpl @ v @ snd tpl"

definition FEEDBACK_PROMPT :: template where
  \<open>FEEDBACK_PROMPT =
    (''\<newline>'' @
     ''You are an expert instructor coach. Given the following set of student feedback items for a course, do three things:\<newline>'' @
     ''\<newline>'' @
     ''1) Write a concise summary (2-3 sentences) capturing the main themes.\<newline>'' @
     ''2) Tag the overall sentiment as one of: positive, neutral, negative.\<newline>'' @
     ''3) Give 2'' @ [CHR 0xE2, CHR 0x80, CHR 0x93] @
     ''3 concrete, prioritized action recommendations the instructor can implement next week (each 6-12 words).\<newline>'' @
     ''\<newline>'' @
     ''Return ONLY valid JSON without markdown code blocks. Use these exact keys: summary, sentiment, actions, example_quotes.\<newline>'' @
     ''\<newline>'' @
     ''Input feedback items:\<newline>'',
     ''\<newline>'')\<close>

definition LECTURE_PROMPT :: template where
  \<open>LECTURE_PROMPT =
    (''\<newline>'' @
     ''You are an expert medical education reviewer and pedagogy coach.\<newline>'' @
     ''\<newline>'' @
     ''Analyze the following lecture transcript and provide a structured critique covering:\<newline>'' @
     ''1. **Overall summary** (2'' @ [CHR 0xE2, CHR 0x80, CHR 0x93] @ ''3 sentences).\<newline>'' @
     ''2. **Clarity & Structure**: strengths and weaknesses in explanation and flow.\<newline>'' @
     ''3. **Missing Key Content**: concepts or guidelines typically expected but absent.\<newline>'' @
     ''4. **Possible Factual Mistakes or Outdated Info**: flag cautiously, cite reasoning.\<newline>'' @
     ''5. **Pedagogical Suggestions**: concrete steps to improve student engagement/learning.\<newline>'' @
     ''\<newline>'' @
     ''Return ONLY valid JSON without markdown code blocks or backticks. Use these exact keys:\<newline>'' @
     ''- "summary"\<newline>'' @
     ''- "clarity_structure"  \<newline>'' @
     ''- "missing_content"\<newline>'' @
     ''- "factual_issues"\<newline>'' @
     ''- "pedagogical_suggestions"\<newline>'' @
     ''\<newline>'' @
     ''Transcript:\<newline>'',
     ''\<newline>'')\<close>

section \<open>final_app.py\<close>

text \<open>
  The two services the program calls are parameters. \<open>call_llm\<close> is the completion
  wrapper: it takes the number of the call within the run (the service may answer the
  same prompt differently each time) and the prompt, and gives the response text or the
  exception the service raised. \<open>loads\<close> is \<open>json.loads\<close>. The calls that only draw
  the page (progress bar, status line, error boxes) and the \<open>print\<close> are left out. A row
  of the frame has integer identifiers and a string as feedback text, on which \<open>str(x)\<close>
  is \<open>x\<close>.
\<close>

type_synonym decoder = "string \<Rightarrow> string + json"
type_synonym completion = "nat \<Rightarrow> string \<Rightarrow> exn + string"

text \<open>
  The cleaning of a response, written twice in the source with the same lines
  (in \<open>process_feedback\<close> and in \<open>analyze_transcript\<close>): \<open>[7:]\<close> drops the seven
  characters of the opening marker, \<open>[:-3]\<close> the three of the closing one.
\<close>

definition cleaned_raw :: "string \<Rightarrow> string" where
  "cleaned_raw raw =
     (let c1 = strip raw;
          c2 = (if startswith c1 ''```json'' then drop 7 c1 else c1);
          c3 = (if endswith c2 ''```'' then take (length c2 - 3) c2 else c2)
      in strip c3)"

text \<open>The \<open>try\<close> block of \<open>process_feedback\<close> with its handler.\<close>

definition parsed_feedback :: "decoder \<Rightarrow> string \<Rightarrow> json" where
  "parsed_feedback loads raw =
     (case loads (cleaned_raw raw) of
        Inr parsed \<Rightarrow> parsed
      | Inl e \<Rightarrow> JObject [(''summary'', JString raw)])"

text \<open>The \<open>try\<close> block of \<open>analyze_transcript\<close> with its handler.\<close>

definition parsed_lecture :: "decoder \<Rightarrow> string \<Rightarrow> json" where
  "parsed_lecture loads raw =
     (case loads (cleaned_raw raw) of
        Inr parsed \<Rightarrow> parsed
      | Inl e \<Rightarrow> JObject [(''summary'', JString ''Error parsing response''), (''error'', JString e)])"

record feedback_row =
  instructor_id :: int
  course_id :: int
  feedback_text :: string

definition group_key :: "feedback_row \<Rightarrow> int \<times> int" where
  "group_key r = (instructor_id r, course_id r)"

text \<open>
  \<open>df.groupby(["instructor_id", "course_id"])\<close> of the pandas library, with its default
  \<open>sort=True\<close>: the groups come in ascending order of the key pair, each with its rows in
  the order of the frame.
\<close>

definition groupby :: "feedback_row list \<Rightarrow> ((int \<times> int) \<times> feedback_row list) list" where
  "groupby df =
     map (\<lambda>k. (k, filter (\<lambda>r. group_key r = k) df)) (sort (remdups (map group_key df)))"

definition feedback_items :: "feedback_row list \<Rightarrow> string" where
  "feedback_items g = join ''\<newline>'' (map (\<lambda>x. ''- '' @ feedback_text x) g)"

definition feedback_prompt :: "feedback_row list \<Rightarrow> string" where
  "feedback_prompt g = format_prompt FEEDBACK_PROMPT (take 2000 (feedback_items g))"

text \<open>The dictionary appended to \<open>results\<close>.\<close>

definition result_row :: "int \<Rightarrow> int \<Rightarrow> json \<Rightarrow> exn + json" where
  "result_row inst course parsed =
     (case py_get parsed ''summary'' of Inl e \<Rightarrow> Inl e | Inr summary \<Rightarrow>
      case py_get parsed ''sentiment'' of Inl e \<Rightarrow> Inl e | Inr sentiment \<Rightarrow>
      case py_get parsed ''actions'' of Inl e \<Rightarrow> Inl e | Inr actions \<Rightarrow>
      case py_get parsed ''example_quotes'' of Inl e \<Rightarrow> Inl e | Inr examples \<Rightarrow>
        Inr (JObject
          [(''instructor_id'', JInt inst),
           (''course_id'', JInt course),
           (''summary'', summary),
           (''sentiment'', sentiment),
           (''actions'', actions),
           (''examples'', examples)]))"

text \<open>One pass of the loop of \<open>process_feedback\<close>, for the group numbered \<open>i\<close>.\<close>

definition process_group ::
  "decoder \<Rightarrow> completion \<Rightarrow> nat \<Rightarrow> (int \<times> int) \<times> feedback_row list \<Rightarrow> exn + json" where
  "process_group loads call_llm i grp =
     (case grp of ((inst, course), g) \<Rightarrow>
        (case call_llm i (feedback_prompt g) of
           Inl e \<Rightarrow> Inl e
         | Inr raw \<Rightarrow> result_row inst course (parsed_feedback loads raw)))"

text \<open>The loop: an exception of a pass leaves the loop, and the function, at once.\<close>

fun process_groups ::
  "decoder \<Rightarrow> completion \<Rightarrow> nat \<Rightarrow> ((int \<times> int) \<times> feedback_row list) list \<Rightarrow> json list
     \<Rightarrow> exn + json list" where
  "process_groups loads call_llm i [] results = Inr results"
| "process_groups loads call_llm i (grp # rest) results =
     (case process_group loads call_llm i grp of
        Inl e \<Rightarrow> Inl e
      | Inr row \<Rightarrow> process_groups loads call_llm (Suc i) rest (results @ [row]))"

definition process_feedback :: "decoder \<Rightarrow> completion \<Rightarrow> feedback_row list \<Rightarrow> exn + json list" where
  "process_feedback loads call_llm df = process_groups loads call_llm 0 (groupby df) []"

text \<open>A caption segment of the transcript service; the program reads its text only.\<close>

record segment =
  seg_text :: string

text \<open>The cap on the fetched text (the \<open>if\<close> of \<open>fetch_youtube_transcript\<close>).\<close>

definition truncate :: "string \<Rightarrow> int \<Rightarrow> string" where
  "truncate text max_chars =
     (if int (length text) > max_chars then slice_to text max_chars @ '' ...[truncated]''
      else text)"

definition fetch_youtube_transcript ::
  "(string \<Rightarrow> exn + segment list) \<Rightarrow> string \<Rightarrow> int \<Rightarrow> exn + string" where
  "fetch_youtube_transcript fetch video_id max_chars =
     (case fetch video_id of
        Inl e \<Rightarrow> Inl e
      | Inr transcript_data \<Rightarrow>
          Inr (truncate
                 (join '' '' (map seg_text (filter (\<lambda>seg. strip (seg_text seg) \<noteq> []) transcript_data)))
                 max_chars))"

definition lecture_prompt :: "string \<Rightarrow> string" where
  "lecture_prompt transcript_text = format_prompt LECTURE_PROMPT (take 5000 transcript_text)"

definition analyze_transcript :: "decoder \<Rightarrow> completion \<Rightarrow> string \<Rightarrow> exn + json" where
  "analyze_transcript loads call_llm transcript_text =
     (case call_llm 0 (lecture_prompt transcript_text) of
        Inl e \<Rightarrow> Inl e
      | Inr raw \<Rightarrow> Inr (parsed_lecture loads raw))"

section \<open>Notions used by the properties\<close>

text \<open>The keys each template asks the service for (\<open>prompts.py\<close>).\<close>

definition feedback_keys :: "string list" where
  "feedback_keys = [''summary'', ''sentiment'', ''actions'', ''example_quotes'']"

definition lecture_keys :: "string list" where
  "lecture_keys =
     [''summary'', ''clarity_structure'', ''missing_content'', ''factual_issues'',
      ''pedagogical_suggestions'']"

fun is_object :: "json \<Rightarrow> bool" where
  "is_object (JObject kvs) = True"
| "is_object _ = False"

text \<open>
  The call for group \<open>i\<close> of the frame returned a response, and the response either does
  not parse or parses to an object.
\<close>

definition group_answered :: "decoder \<Rightarrow> completion \<Rightarrow> feedback_row list \<Rightarrow> nat \<Rightarrow> bool" where
  "group_answered loads call_llm df i =
     (case call_llm i (feedback_prompt (snd (groupby df ! i))) of
        Inl e \<Rightarrow> False
      | Inr raw \<Rightarrow> (case loads (cleaned_raw raw) of Inl e \<Rightarrow> True | Inr v \<Rightarrow> is_object v))"

text \<open>The order in which the keys of a list first occur.\<close>

definition first_seen :: "'a list \<Rightarrow> 'a list" where
  "first_seen ks = rev (remdups (rev ks))"

text \<open>A frame of three rows in two groups, the later group first.\<close>

abbreviation sample_frame :: "feedback_row list" where
  "sample_frame \<equiv>
     [\<lparr>instructor_id = 2, course_id = 20, feedback_text = ''Too fast''\<rparr>,
      \<lparr>instructor_id = 1, course_id = 10, feedback_text = ''Great pace''\<rparr>,
      \<lparr>instructor_id = 2, course_id = 20, feedback_text = ''More examples''\<rparr>]"

section \<open>Stripping whitespace\<close>

lemma strip_rl: "strip s = rstrip (lstrip s)"
  by (simp add: strip_def lstrip_def rstrip_def)

lemma lstrip_spaces: "\<forall>c\<in>set w. isspace c \<Longrightarrow> lstrip (w @ s) = lstrip s"
  by (simp add: lstrip_def dropWhile_append)

lemma rstrip_spaces: "\<forall>c\<in>set w. isspace c \<Longrightarrow> rstrip (s @ w) = rstrip s"
  by (simp add: rstrip_def dropWhile_append)

lemma lstrip_fixed: "a \<noteq> [] \<Longrightarrow> \<not> isspace (hd a) \<Longrightarrow> lstrip (a @ b) = a @ b"
  by (cases a) (simp_all add: lstrip_def)

lemma rstrip_fixed: "a \<noteq> [] \<Longrightarrow> \<not> isspace (last a) \<Longrightarrow> rstrip (b @ a) = b @ a"
  by (cases a rule: rev_cases) (simp_all add: rstrip_def)

lemma lstrip_append: "a \<noteq> [] \<Longrightarrow> \<not> isspace (hd a) \<Longrightarrow> lstrip (b @ a) = lstrip b @ a"
  by (induction b) (simp_all add: lstrip_def, cases a, simp_all)

lemma rstrip_append: "a \<noteq> [] \<Longrightarrow> \<not> isspace (last a) \<Longrightarrow> rstrip (a @ b) = a @ rstrip b"
proof (induction b rule: rev_induct)
  case Nil
  then show ?case using rstrip_fixed [of a "[]"] by (simp add: rstrip_def)
next
  case (snoc x xs)
  show ?case
  proof (cases "isspace x")
    case True
    then have "rstrip (a @ xs @ [x]) = rstrip (a @ xs)" "rstrip (xs @ [x]) = rstrip xs"
      by (simp_all add: rstrip_def)
    with snoc show ?thesis by simp
  next
    case False
    then show ?thesis by (simp add: rstrip_def)
  qed
qed

lemma lstrip_idem: "lstrip (lstrip s) = lstrip s"
  by (simp add: lstrip_def dropWhile_idem)

lemma rstrip_idem: "rstrip (rstrip s) = rstrip s"
  by (simp add: rstrip_def dropWhile_idem)

lemma dropWhile_rev_commute:
  "dropWhile P (rev (dropWhile P (rev s))) = rev (dropWhile P (rev (dropWhile P s)))"
proof (induction s)
  case Nil
  show ?case by simp
next
  case (Cons c s)
  show ?case
  proof (cases "P c")
    case False
    have "dropWhile P (rev s @ [c]) = dropWhile P (rev s) @ [c]"
      using False by (rule dropWhile_append3)
    then show ?thesis using False by simp
  next
    case True
    note Pc = this
    show ?thesis
    proof (cases "\<forall>x\<in>set s. P x")
      case True
      then have a: "dropWhile P (rev (c # s)) = []" and b: "dropWhile P (c # s) = []"
        using Pc by simp_all
      show ?thesis unfolding a b by simp
    next
      case False
      then have "dropWhile P (rev s @ [c]) = dropWhile P (rev s) @ [c]"
        by (simp add: dropWhile_append)
      then have "dropWhile P (rev (dropWhile P (rev (c # s)))) = dropWhile P (rev (dropWhile P (rev s)))"
        using Pc by simp
      also have "\<dots> = rev (dropWhile P (rev (dropWhile P s)))" by (rule Cons.IH)
      also have "\<dots> = rev (dropWhile P (rev (dropWhile P (c # s))))" using Pc by simp
      finally show ?thesis .
    qed
  qed
qed

lemma strip_lr: "strip s = lstrip (rstrip s)"
  unfolding strip_def lstrip_def rstrip_def by (rule dropWhile_rev_commute [symmetric])

lemma strip_idem: "strip (strip s) = strip s"
proof -
  have a: "strip (strip s) = rstrip (lstrip (strip s))" by (rule strip_rl)
  have b: "lstrip (strip s) = strip s" by (simp only: strip_lr lstrip_idem)
  have c: "rstrip (strip s) = strip s" by (simp only: strip_rl rstrip_idem)
  show ?thesis by (simp only: a b c)
qed

lemma strip_lstrip: "strip (lstrip s) = strip s"
  by (simp only: strip_rl lstrip_idem)

lemma strip_rstrip: "strip (rstrip s) = strip s"
  by (simp only: strip_lr rstrip_idem)

lemma strip_Nil_rstrip: "strip s \<noteq> [] \<Longrightarrow> rstrip s \<noteq> []"
  unfolding strip_lr lstrip_def by auto

lemma strip_Nil_lstrip: "strip s \<noteq> [] \<Longrightarrow> lstrip s \<noteq> []"
  unfolding strip_rl rstrip_def by auto

lemma last_rstrip: "strip s \<noteq> [] \<Longrightarrow> last (rstrip s) = last (strip s)"
proof -
  assume ne: "strip s \<noteq> []"
  have "takeWhile isspace (rstrip s) @ strip s = rstrip s"
    by (simp add: strip_lr lstrip_def)
  then obtain t where "rstrip s = t @ strip s" by metis
  then show ?thesis using ne by simp
qed

lemma hd_lstrip: "strip s \<noteq> [] \<Longrightarrow> hd (lstrip s) = hd (strip s)"
proof -
  assume ne: "strip s \<noteq> []"
  have "rev (lstrip s) = takeWhile isspace (rev (lstrip s)) @ dropWhile isspace (rev (lstrip s))"
    by (rule takeWhile_dropWhile_id [symmetric])
  then have "rev (rev (lstrip s))
      = rev (takeWhile isspace (rev (lstrip s)) @ dropWhile isspace (rev (lstrip s)))"
    by (rule arg_cong)
  then have "lstrip s = strip s @ rev (takeWhile isspace (rev (lstrip s)))"
    by (simp only: rev_rev_ident rev_append strip_rl rstrip_def)
  then obtain t where "lstrip s = strip s @ t" by blast
  then show ?thesis using ne by simp
qed

section \<open>Cleaning a response\<close>

lemma startswith_append: "startswith (p @ s) p"
  by (simp add: startswith_def)

lemma endswith_append: "endswith (s @ p) p"
  by (simp add: endswith_def)

lemma startswith_hd: "startswith s p \<Longrightarrow> p \<noteq> [] \<Longrightarrow> s \<noteq> [] \<and> hd s = hd p"
  by (cases s; cases p) (auto simp: startswith_def)

lemma endswith_last: "endswith s p \<Longrightarrow> p \<noteq> [] \<Longrightarrow> s \<noteq> [] \<and> last s = last p"
proof -
  assume e: "endswith s p" and p: "p \<noteq> []"
  then have "take (length s - length p) s @ p = s"
    by (metis append_take_drop_id endswith_def)
  then obtain t where "s = t @ p" by metis
  then show ?thesis using p by simp
qed

lemma strip_fenced:
  assumes "\<forall>c\<in>set w1. isspace c" "\<forall>c\<in>set w2. isspace c"
  shows "strip (w1 @ ''```json'' @ body @ ''```'' @ w2) = ''```json'' @ body @ ''```''"
proof -
  have "lstrip (w1 @ ''```json'' @ body @ ''```'' @ w2) = lstrip (''```json'' @ (body @ ''```'' @ w2))"
    using assms(1) by (simp only: lstrip_spaces)
  also have "\<dots> = ''```json'' @ (body @ ''```'' @ w2)"
    by (rule lstrip_fixed) (simp_all add: isspace_def)
  finally have l: "lstrip (w1 @ ''```json'' @ body @ ''```'' @ w2) = (''```json'' @ body @ ''```'') @ w2"
    by simp
  have "rstrip ((''```json'' @ body @ ''```'') @ w2) = rstrip ((''```json'' @ body) @ ''```'')"
    using rstrip_spaces [OF assms(2), of "''```json'' @ body @ ''```''"] by simp
  also have "\<dots> = (''```json'' @ body) @ ''```''"
    by (rule rstrip_fixed) (simp_all add: isspace_def)
  finally show ?thesis unfolding strip_rl l by simp
qed

lemma cleaned_raw_fenced:
  assumes "\<forall>c\<in>set w1. isspace c" "\<forall>c\<in>set w2. isspace c"
  shows "cleaned_raw (w1 @ ''```json'' @ body @ ''```'' @ w2) = strip body"
proof -
  have s: "startswith (''```json'' @ body @ ''```'') ''```json''" by (rule startswith_append)
  have d: "drop 7 (''```json'' @ body @ ''```'') = body @ ''```''" by simp
  have e: "endswith (body @ ''```'') ''```''" by (rule endswith_append)
  have t: "take (length (body @ ''```'') - 3) (body @ ''```'') = body" by simp
  show ?thesis
    unfolding cleaned_raw_def Let_def strip_fenced [OF assms]
    by (simp only: s d e t if_True)
qed


lemma cleaned_raw_bare:
  assumes "strip body \<noteq> []" "hd (strip body) = CHR ''{''" "last (strip body) = CHR ''}''"
  shows "cleaned_raw body = strip body"
proof -
  have s: "\<not> startswith (strip body) ''```json''"
    using startswith_hd [of "strip body" "''```json''"] assms(2) by auto
  have e: "\<not> endswith (strip body) ''```''"
    using endswith_last [of "strip body" "''```''"] assms(3) by auto
  show ?thesis
    unfolding cleaned_raw_def Let_def by (simp only: s e if_False strip_idem)
qed

lemma cleaned_raw_open_only:
  assumes "\<forall>c\<in>set w1. isspace c"
    and "strip body \<noteq> []" "last (strip body) = CHR ''}''"
  shows "cleaned_raw (w1 @ ''```json'' @ body) = strip body"
proof -
  have "lstrip (w1 @ ''```json'' @ body) = lstrip (''```json'' @ body)"
    using assms(1) by (simp only: lstrip_spaces)
  also have "\<dots> = ''```json'' @ body"
    by (rule lstrip_fixed) (simp_all add: isspace_def)
  finally have l: "lstrip (w1 @ ''```json'' @ body) = ''```json'' @ body" .
  have r: "rstrip (''```json'' @ body) = ''```json'' @ rstrip body"
    by (rule rstrip_append) (simp_all add: isspace_def)
  have c1: "strip (w1 @ ''```json'' @ body) = ''```json'' @ rstrip body"
    unfolding strip_rl l r ..
  have s: "startswith (''```json'' @ rstrip body) ''```json''" by (rule startswith_append)
  have d: "drop 7 (''```json'' @ rstrip body) = rstrip body" by simp
  have "last (rstrip body) = CHR ''}''"
    using last_rstrip [OF assms(2)] assms(3) by simp
  then have e: "\<not> endswith (rstrip body) ''```''"
    using endswith_last [of "rstrip body" "''```''"] by auto
  show ?thesis
    unfolding cleaned_raw_def Let_def c1
    by (simp only: s d e if_True if_False strip_rstrip)
qed

lemma cleaned_raw_close_only:
  assumes "\<forall>c\<in>set w2. isspace c"
    and "strip body \<noteq> []" "hd (strip body) = CHR ''{''"
  shows "cleaned_raw (body @ ''```'' @ w2) = strip body"
proof -
  have l: "lstrip (body @ ''```'' @ w2) = lstrip body @ ''```'' @ w2"
    by (rule lstrip_append) (simp_all add: isspace_def)
  have "rstrip ((lstrip body @ ''```'') @ w2) = rstrip (lstrip body @ ''```'')"
    using assms(1) by (rule rstrip_spaces)
  also have "\<dots> = lstrip body @ ''```''"
    by (rule rstrip_fixed) (simp_all add: isspace_def)
  finally have r: "rstrip (lstrip body @ ''```'' @ w2) = lstrip body @ ''```''" by simp
  have c1: "strip (body @ ''```'' @ w2) = lstrip body @ ''```''"
    unfolding strip_rl l r ..
  have ne: "lstrip body \<noteq> []" using assms(2) by (rule strip_Nil_lstrip)
  have "hd (lstrip body @ ''```'') = CHR ''{''"
    using ne hd_lstrip [OF assms(2)] assms(3) by simp
  then have s: "\<not> startswith (lstrip body @ ''```'') ''```json''"
    using startswith_hd [of "lstrip body @ ''```''" "''```json''"] by auto
  have e: "endswith (lstrip body @ ''```'') ''```''" by (rule endswith_append)
  have t: "take (length (lstrip body @ ''```'') - 3) (lstrip body @ ''```'') = lstrip body" by simp
  show ?thesis
    unfolding cleaned_raw_def Let_def c1
    by (simp only: s e t if_True if_False strip_lstrip)
qed

section \<open>The two parse sites\<close>

lemma tagged_fence_recovered:
  assumes "\<forall>c\<in>set w1. isspace c" "\<forall>c\<in>set w2. isspace c"
    and "strip body \<noteq> []" "hd (strip body) = CHR ''{''" "last (strip body) = CHR ''}''"
    and "raw \<in> {body, w1 @ ''```json'' @ body @ ''```'' @ w2, w1 @ ''```json'' @ body,
                 body @ ''```'' @ w2}"
  shows "cleaned_raw raw = strip body"
  using assms cleaned_raw_bare [of body] cleaned_raw_fenced [of w1 w2 body]
    cleaned_raw_open_only [of w1 body] cleaned_raw_close_only [of w2 body]
  by auto

text \<open>
  C3. A JSON object wrapped in a code fence whose opening marker carries no \<open>json\<close> tag is
  not recovered. On the response \<open>```\<close>, newline, \<open>{"summary":"ok"}\<close>, newline, \<open>```\<close> the
  cleaning removes the closing marker and leaves the opening one, the decoder rejects the
  rest, and the feedback site falls back to the raw text; the same object bare, or behind
  the tagged marker \<open>```json\<close>, is parsed to \<open>{summary: "ok"}\<close>.
\<close>

theorem untagged_fence_not_recovered:
  \<open>cleaned_raw ''```\<newline>{"summary":"ok"}\<newline>```'' = ''```\<newline>{"summary":"ok"}''
   \<and> json_loads ''```\<newline>{"summary":"ok"}'' = Inl ''Expecting value''
   \<and> parsed_feedback json_loads ''```\<newline>{"summary":"ok"}\<newline>```''
       = JObject [(''summary'', JString ''```\<newline>{"summary":"ok"}\<newline>```'')]
   \<and> parsed_feedback json_loads ''{"summary":"ok"}'' = JObject [(''summary'', JString ''ok'')]
   \<and> parsed_feedback json_loads ''```json\<newline>{"summary":"ok"}\<newline>```''
       = JObject [(''summary'', JString ''ok'')]\<close>
  by code_simp

text \<open>
  C2, as the code has it. When the decoder fails on the cleaned response, no exception
  leaves either parse site. At the feedback site the parsed value is the mapping with the
  single entry \<open>summary\<close>, bound to the raw response text unchanged, so the appended row
  has that text as its summary and null for sentiment, actions and examples. At the lecture
  site the function returns a mapping as well, and its summary is the fixed text
  \<open>Error parsing response\<close>. Neither site returns a success flag.
\<close>

theorem feedback_parse_failure_fallback:
  assumes "loads (cleaned_raw raw) = Inl e"
  shows "parsed_feedback loads raw = JObject [(''summary'', JString raw)]
    \<and> result_row inst course (parsed_feedback loads raw)
        = Inr (JObject
            [(''instructor_id'', JInt inst), (''course_id'', JInt course),
             (''summary'', JString raw), (''sentiment'', JNull), (''actions'', JNull),
             (''examples'', JNull)])
    \<and> (call_llm i (feedback_prompt g) = Inr raw \<longrightarrow>
         process_group loads call_llm i ((inst, course), g)
         = Inr (JObject
            [(''instructor_id'', JInt inst), (''course_id'', JInt course),
             (''summary'', JString raw), (''sentiment'', JNull), (''actions'', JNull),
             (''examples'', JNull)]))
    \<and> (call_llm 0 (lecture_prompt t) = Inr raw \<longrightarrow>
         (\<exists>v. analyze_transcript loads call_llm t = Inr v
            \<and> py_get v ''summary'' = Inr (JString ''Error parsing response'')))"
  using assms
  by (simp add: parsed_feedback_def parsed_lecture_def result_row_def process_group_def
      analyze_transcript_def)

theorem feedback_parse_failure_fallback_witness:
  \<open>json_loads (cleaned_raw ''not json at all'') = Inl ''Expecting value''
   \<and> process_group json_loads (\<lambda>i p. Inr ''not json at all'') 0
        ((1, 10), [\<lparr>instructor_id = 1, course_id = 10, feedback_text = ''Great pace''\<rparr>])
      = Inr (JObject
            [(''instructor_id'', JInt 1), (''course_id'', JInt 10),
             (''summary'', JString ''not json at all''), (''sentiment'', JNull),
             (''actions'', JNull), (''examples'', JNull)])
   \<and> (\<exists>v. analyze_transcript json_loads (\<lambda>i p. Inr ''not json at all'') ''a lecture'' = Inr v
            \<and> py_get v ''summary'' = Inr (JString ''Error parsing response''))\<close>
proof -
  have l: "json_loads (cleaned_raw ''not json at all'') = Inl ''Expecting value''"
    by code_simp
  show ?thesis
    using l feedback_parse_failure_fallback [where loads = json_loads
        and raw = "''not json at all''" and e = "''Expecting value''" and inst = 1 and course = 10
        and call_llm = "\<lambda>i p. Inr ''not json at all''" and i = 0
        and g = "[\<lparr>instructor_id = 1, course_id = 10, feedback_text = ''Great pace''\<rparr>]"
        and t = "''a lecture''"]
    by simp
qed

text \<open>
  C2 as stated fails at the lecture site: on the response \<open>not json at all\<close> the summary
  of the returned mapping is not the raw text.
\<close>

theorem lecture_parse_failure_counterexample:
  \<open>json_loads (cleaned_raw ''not json at all'') = Inl ''Expecting value''
   \<and> analyze_transcript json_loads (\<lambda>i p. Inr ''not json at all'') ''a lecture''
       = Inr (JObject [(''summary'', JString ''Error parsing response''),
                       (''error'', JString ''Expecting value'')])
   \<and> JString ''Error parsing response'' \<noteq> JString ''not json at all''\<close>
  by code_simp

text \<open>
  C10. When the decoder fails on the cleaned response of the lecture critique,
  \<open>analyze_transcript\<close> returns the mapping with exactly two keys: \<open>summary\<close>, bound to the
  fixed text \<open>Error parsing response\<close> (not to the raw response), and \<open>error\<close>, bound to the
  message of the exception. \<open>error\<close> is not a key of the critique, and of the keys of the
  critique only \<open>summary\<close> is present.
\<close>

theorem analyze_transcript_parse_failure:
  assumes "call_llm 0 (lecture_prompt t) = Inr raw" and "loads (cleaned_raw raw) = Inl e"
  shows "analyze_transcript loads call_llm t
           = Inr (JObject [(''summary'', JString ''Error parsing response''), (''error'', JString e)])
    \<and> keys (JObject [(''summary'', JString ''Error parsing response''), (''error'', JString e)])
           = [''summary'', ''error'']
    \<and> ''error'' \<notin> set lecture_keys
    \<and> set lecture_keys \<inter> set [''summary'', ''error''] = {''summary''}"
  using assms by (auto simp: analyze_transcript_def parsed_lecture_def lecture_keys_def)

theorem analyze_transcript_parse_failure_witness:
  \<open>json_loads (cleaned_raw ''Sorry, I cannot help.'') = Inl ''Expecting value''
   \<and> analyze_transcript json_loads (\<lambda>i p. Inr ''Sorry, I cannot help.'') ''a lecture''
       = Inr (JObject [(''summary'', JString ''Error parsing response''),
                       (''error'', JString ''Expecting value'')])\<close>
proof -
  have l: "json_loads (cleaned_raw ''Sorry, I cannot help.'') = Inl ''Expecting value''"
    by code_simp
  show ?thesis
    using l analyze_transcript_parse_failure [where loads = json_loads
        and call_llm = "\<lambda>i p. Inr ''Sorry, I cannot help.''" and t = "''a lecture''"
        and raw = "''Sorry, I cannot help.''" and e = "''Expecting value''"]
    by simp
qed

text \<open>
  C4, as the code has it. When the cleaned response parses to an object, the row built at
  the feedback site has exactly the keys \<open>instructor_id\<close>, \<open>course_id\<close>, \<open>summary\<close>,
  \<open>sentiment\<close>, \<open>actions\<close>, \<open>examples\<close>; each expected key missing from the object gives
  null, each expected key bound in the object gives its value (so null stays null), with
  \<open>example_quotes\<close> stored under \<open>examples\<close>; the entries of the object under other keys
  play no part in the row. At the lecture site the parsed object is returned as it is.
\<close>

theorem feedback_row_expected_keys:
  assumes "loads (cleaned_raw raw) = Inr (JObject kvs)"
  shows "\<exists>row. result_row inst course (parsed_feedback loads raw) = Inr (JObject row)
    \<and> map fst row
        = [''instructor_id'', ''course_id'', ''summary'', ''sentiment'', ''actions'', ''examples'']
    \<and> (\<forall>k\<in>set feedback_keys.
          (map_of kvs k = None \<longrightarrow>
             map_of row (if k = ''example_quotes'' then ''examples'' else k) = Some JNull)
        \<and> (\<forall>v. map_of kvs k = Some v \<longrightarrow>
             map_of row (if k = ''example_quotes'' then ''examples'' else k) = Some v))
    \<and> result_row inst course (JObject (filter (\<lambda>kv. fst kv \<in> set feedback_keys) kvs))
        = Inr (JObject row)
    \<and> parsed_lecture loads raw = JObject kvs"
proof -
  have f: "map_of (filter (\<lambda>kv. fst kv \<in> set feedback_keys) kvs) k = map_of kvs k"
    if "k \<in> set feedback_keys" for k
    using that by (induction kvs) auto
  have fs: "map_of (filter (\<lambda>kv. fst kv \<in> set feedback_keys) kvs) ''summary'' = map_of kvs ''summary''"
    "map_of (filter (\<lambda>kv. fst kv \<in> set feedback_keys) kvs) ''sentiment'' = map_of kvs ''sentiment''"
    "map_of (filter (\<lambda>kv. fst kv \<in> set feedback_keys) kvs) ''actions'' = map_of kvs ''actions''"
    "map_of (filter (\<lambda>kv. fst kv \<in> set feedback_keys) kvs) ''example_quotes'' = map_of kvs ''example_quotes''"
    by (rule f, simp add: feedback_keys_def)+
  have p: "parsed_feedback loads raw = JObject kvs" "parsed_lecture loads raw = JObject kvs"
    using assms by (simp_all add: parsed_feedback_def parsed_lecture_def)
  show ?thesis
    unfolding p result_row_def
    by (simp add: fs) (simp add: feedback_keys_def)
qed

theorem feedback_row_expected_keys_witness:
  \<open>json_loads (cleaned_raw ''{"summary":"s","sentiment":null,"extra":1}'')
     = Inr (JObject [(''summary'', JString ''s''), (''sentiment'', JNull), (''extra'', JInt 1)])
   \<and> result_row 1 10 (parsed_feedback json_loads ''{"summary":"s","sentiment":null,"extra":1}'')
     = Inr (JObject
            [(''instructor_id'', JInt 1), (''course_id'', JInt 10),
             (''summary'', JString ''s''), (''sentiment'', JNull), (''actions'', JNull),
             (''examples'', JNull)])
   \<and> parsed_lecture json_loads ''{"summary":"s","sentiment":null,"extra":1}''
     = JObject [(''summary'', JString ''s''), (''sentiment'', JNull), (''extra'', JInt 1)]\<close>
proof -
  have l: \<open>json_loads (cleaned_raw ''{"summary":"s","sentiment":null,"extra":1}'')
     = Inr (JObject [(''summary'', JString ''s''), (''sentiment'', JNull), (''extra'', JInt 1)])\<close>
    by code_simp
  note t = feedback_row_expected_keys [where loads = json_loads
      and raw = \<open>''{"summary":"s","sentiment":null,"extra":1}''\<close>
      and kvs = "[(''summary'', JString ''s''), (''sentiment'', JNull), (''extra'', JInt 1)]"
      and inst = 1 and course = 10]
  from t [OF l]
  obtain row where r: \<open>result_row 1 10
        (parsed_feedback json_loads ''{"summary":"s","sentiment":null,"extra":1}'')
       = Inr (JObject row)\<close>
    and p: \<open>parsed_lecture json_loads ''{"summary":"s","sentiment":null,"extra":1}''
       = JObject [(''summary'', JString ''s''), (''sentiment'', JNull), (''extra'', JInt 1)]\<close>
    by blast
  have \<open>parsed_feedback json_loads ''{"summary":"s","sentiment":null,"extra":1}''
     = JObject [(''summary'', JString ''s''), (''sentiment'', JNull), (''extra'', JInt 1)]\<close>
    using l by (simp add: parsed_feedback_def)
  then show ?thesis using l p by (simp add: result_row_def)
qed

text \<open>
  C4 as stated fails at the lecture site: a key outside the expected ones is returned, and
  an expected key missing from the object is missing from the result.
\<close>

theorem lecture_extra_key_counterexample:
  \<open>analyze_transcript json_loads (\<lambda>i p. Inr ''{"summary":"s","extra":1}'') ''a lecture''
       = Inr (JObject [(''summary'', JString ''s''), (''extra'', JInt 1)])
   \<and> ''extra'' \<notin> set lecture_keys
   \<and> ''clarity_structure'' \<in> set lecture_keys
   \<and> ''clarity_structure'' \<notin> set (keys (JObject [(''summary'', JString ''s''), (''extra'', JInt 1)]))\<close>
  by code_simp

section \<open>The loop over the groups\<close>

lemma process_groups_Inr:
  "process_groups loads call_llm k gs acc = Inr rs \<Longrightarrow>
     length rs = length acc + length gs \<and> take (length acc) rs = acc
     \<and> (\<forall>j<length gs. process_group loads call_llm (k + j) (gs ! j) = Inr (rs ! (length acc + j)))"
proof (induction gs arbitrary: k acc)
  case Nil
  then show ?case by simp
next
  case (Cons grp rest)
  from Cons.prems obtain row where
    r: "process_group loads call_llm k grp = Inr row"
    and p: "process_groups loads call_llm (Suc k) rest (acc @ [row]) = Inr rs"
    by (auto split: sum.splits)
  from Cons.IH [OF p] have
    l: "length rs = length (acc @ [row]) + length rest"
    and t: "take (length (acc @ [row])) rs = acc @ [row]"
    and a: "\<forall>j<length rest. process_group loads call_llm (Suc k + j) (rest ! j)
              = Inr (rs ! (length (acc @ [row]) + j))"
    by auto
  have t': "take (length acc) rs = acc"
  proof -
    have "take (length acc) (take (length (acc @ [row])) rs) = take (length acc) (acc @ [row])"
      by (simp only: t)
    then show ?thesis by simp
  qed
  have n: "rs ! length acc = row"
  proof -
    have "(take (length (acc @ [row])) rs) ! length acc = (acc @ [row]) ! length acc"
      by (simp only: t)
    then show ?thesis by simp
  qed
  have "process_group loads call_llm (k + j) ((grp # rest) ! j) = Inr (rs ! (length acc + j))"
    if "j < length (grp # rest)" for j
  proof (cases j)
    case 0
    then show ?thesis using r n by simp
  next
    case (Suc j')
    then have "j' < length rest" using that by simp
    with a have "process_group loads call_llm (Suc k + j') (rest ! j')
              = Inr (rs ! (length (acc @ [row]) + j'))" by blast
    then show ?thesis using Suc by simp
  qed
  then show ?case using l t' by simp
qed

lemma process_groups_total:
  "(\<forall>j<length gs. \<exists>r. process_group loads call_llm (k + j) (gs ! j) = Inr r) \<Longrightarrow>
     \<exists>rs. process_groups loads call_llm k gs acc = Inr rs"
proof (induction gs arbitrary: k acc)
  case Nil
  then show ?case by simp
next
  case (Cons grp rest)
  from Cons.prems have "\<exists>r. process_group loads call_llm (k + 0) ((grp # rest) ! 0) = Inr r"
    by blast
  then obtain row where r: "process_group loads call_llm k grp = Inr row" by auto
  have "\<forall>j<length rest. \<exists>r. process_group loads call_llm (Suc k + j) (rest ! j) = Inr r"
  proof (intro allI impI)
    fix j assume "j < length rest"
    then have "Suc j < length (grp # rest)" by simp
    with Cons.prems have "\<exists>r. process_group loads call_llm (k + Suc j) ((grp # rest) ! Suc j) = Inr r"
      by blast
    then show "\<exists>r. process_group loads call_llm (Suc k + j) (rest ! j) = Inr r" by simp
  qed
  from Cons.IH [OF this] obtain rs where
    "process_groups loads call_llm (Suc k) rest (acc @ [row]) = Inr rs" by blast
  then show ?case using r by simp
qed

lemma process_groups_raises:
  "i < length gs \<Longrightarrow> process_group loads call_llm (k + i) (gs ! i) = Inl e \<Longrightarrow>
   (\<forall>j<i. \<exists>r. process_group loads call_llm (k + j) (gs ! j) = Inr r) \<Longrightarrow>
     process_groups loads call_llm k gs acc = Inl e"
proof (induction gs arbitrary: k acc i)
  case Nil
  then show ?case by simp
next
  case (Cons grp rest)
  show ?case
  proof (cases i)
    case 0
    then show ?thesis using Cons.prems by simp
  next
    case (Suc i')
    with Cons.prems(3) have "\<exists>r. process_group loads call_llm (k + 0) ((grp # rest) ! 0) = Inr r"
      by blast
    then obtain row where r: "process_group loads call_llm k grp = Inr row" by auto
    have a: "i' < length rest" using Cons.prems(1) Suc by simp
    have b: "process_group loads call_llm (Suc k + i') (rest ! i') = Inl e"
      using Cons.prems(2) Suc by simp
    have c: "\<forall>j<i'. \<exists>r. process_group loads call_llm (Suc k + j) (rest ! j) = Inr r"
    proof (intro allI impI)
      fix j assume "j < i'"
      then have "Suc j < i" using Suc by simp
      with Cons.prems(3) have "\<exists>r. process_group loads call_llm (k + Suc j) ((grp # rest) ! Suc j) = Inr r"
        by blast
      then show "\<exists>r. process_group loads call_llm (Suc k + j) (rest ! j) = Inr r" by simp
    qed
    from Cons.IH [OF a b c] show ?thesis using r by simp
  qed
qed

lemma length_groupby: "length (groupby df) = card (group_key ` set df)"
  by (simp add: groupby_def length_remdups_card_conv)

lemma fst_groupby: "map fst (groupby df) = sort (remdups (map group_key df))"
  by (simp add: groupby_def comp_def)

lemma groupby_nth:
  "i < length (groupby df) \<Longrightarrow>
     groupby df ! i = (sort (remdups (map group_key df)) ! i,
                       filter (\<lambda>r. group_key r = sort (remdups (map group_key df)) ! i) df)"
  by (simp add: groupby_def)

lemma groupby_keys_sorted:
  "sorted_wrt (<) (map fst (groupby df)) \<and> set (map fst (groupby df)) = group_key ` set df"
proof -
  have "sorted (sort (remdups (map group_key df)))" "distinct (sort (remdups (map group_key df)))"
    by simp_all
  then have "sorted_wrt (<) (sort (remdups (map group_key df)))"
    by (simp add: strict_sorted_iff)
  then show ?thesis by (simp add: fst_groupby)
qed

lemma process_group_Inr:
  assumes "process_group loads call_llm i ((inst, course), g) = Inr row"
  shows "\<exists>raw kvs. call_llm i (feedback_prompt g) = Inr raw
           \<and> parsed_feedback loads raw = JObject kvs
           \<and> result_row inst course (JObject kvs) = Inr row"
proof -
  from assms obtain raw where c: "call_llm i (feedback_prompt g) = Inr raw"
    and r: "result_row inst course (parsed_feedback loads raw) = Inr row"
    by (auto simp: process_group_def split: sum.splits)
  from r obtain kvs where "parsed_feedback loads raw = JObject kvs"
    by (cases "parsed_feedback loads raw") (simp_all add: result_row_def)
  with c r show ?thesis by auto
qed

lemma group_answered_Inr:
  assumes "group_answered loads call_llm df i"
  shows "\<exists>r. process_group loads call_llm i (groupby df ! i) = Inr r"
proof -
  obtain inst course g where g: "groupby df ! i = ((inst, course), g)"
    by (metis surj_pair)
  from assms obtain raw where c: "call_llm i (feedback_prompt g) = Inr raw"
    and o: "case loads (cleaned_raw raw) of Inl e \<Rightarrow> True | Inr v \<Rightarrow> is_object v"
    by (auto simp: group_answered_def g split: sum.splits)
  have "\<exists>kvs. parsed_feedback loads raw = JObject kvs"
  proof (cases "loads (cleaned_raw raw)")
    case (Inl e)
    then show ?thesis by (simp add: parsed_feedback_def)
  next
    case (Inr v)
    with o have "is_object v" by simp
    then obtain kvs where "v = JObject kvs" by (cases v) simp_all
    with Inr show ?thesis by (simp add: parsed_feedback_def)
  qed
  then obtain kvs where "parsed_feedback loads raw = JObject kvs" ..
  then show ?thesis using c by (simp add: process_group_def g result_row_def)
qed

text \<open>
  C1, as the code has it. When every call of the completion service returns a response
  that either fails to parse or parses to an object, \<open>process_feedback\<close> returns one row
  per group: as many rows as the frame has distinct pairs of instructor and course,
  whatever the number of groups whose response fails to parse. The row of a group whose
  response fails to parse carries the key of the group, the raw response text (not the
  error) as its summary and null for sentiment, actions and examples. An exception raised
  by the completion call of a group is not caught: it leaves \<open>process_feedback\<close>, which
  then returns no rows at all.
\<close>

theorem process_feedback_parse_failures_isolated:
  "((\<forall>i<length (groupby df). group_answered loads call_llm df i) \<longrightarrow>
      (\<exists>rs. process_feedback loads call_llm df = Inr rs
         \<and> length rs = card (group_key ` set df)
         \<and> (\<forall>i<length rs. \<forall>raw e.
               call_llm i (feedback_prompt (snd (groupby df ! i))) = Inr raw \<longrightarrow>
               loads (cleaned_raw raw) = Inl e \<longrightarrow>
               rs ! i = JObject
                 [(''instructor_id'', JInt (fst (fst (groupby df ! i)))),
                  (''course_id'', JInt (snd (fst (groupby df ! i)))),
                  (''summary'', JString raw), (''sentiment'', JNull), (''actions'', JNull),
                  (''examples'', JNull)])))
   \<and> (\<forall>i e. i < length (groupby df) \<longrightarrow>
          (\<forall>j<i. group_answered loads call_llm df j) \<longrightarrow>
          call_llm i (feedback_prompt (snd (groupby df ! i))) = Inl e \<longrightarrow>
          process_feedback loads call_llm df = Inl e)"
proof (intro conjI impI allI)
  assume ok: "\<forall>i<length (groupby df). group_answered loads call_llm df i"
  then have "\<forall>j<length (groupby df).
      \<exists>r. process_group loads call_llm (0 + j) (groupby df ! j) = Inr r"
    using group_answered_Inr by simp
  from process_groups_total [OF this] obtain rs where
    rs: "process_groups loads call_llm 0 (groupby df) [] = Inr rs" by blast
  note facts = process_groups_Inr [OF rs]
  have len: "length rs = length (groupby df)" using facts by simp
  have "rs ! i = JObject
                 [(''instructor_id'', JInt (fst (fst (groupby df ! i)))),
                  (''course_id'', JInt (snd (fst (groupby df ! i)))),
                  (''summary'', JString raw), (''sentiment'', JNull), (''actions'', JNull),
                  (''examples'', JNull)]"
    if i: "i < length rs" and c: "call_llm i (feedback_prompt (snd (groupby df ! i))) = Inr raw"
      and l: "loads (cleaned_raw raw) = Inl e" for i raw e
  proof -
    from i len facts have "process_group loads call_llm i (groupby df ! i) = Inr (rs ! i)"
      by simp
    then show ?thesis
      using c l
      by (cases "groupby df ! i")
         (auto simp: process_group_def parsed_feedback_def result_row_def)
  qed
  then show "\<exists>rs. process_feedback loads call_llm df = Inr rs
         \<and> length rs = card (group_key ` set df)
         \<and> (\<forall>i<length rs. \<forall>raw e.
               call_llm i (feedback_prompt (snd (groupby df ! i))) = Inr raw \<longrightarrow>
               loads (cleaned_raw raw) = Inl e \<longrightarrow>
               rs ! i = JObject
                 [(''instructor_id'', JInt (fst (fst (groupby df ! i)))),
                  (''course_id'', JInt (snd (fst (groupby df ! i)))),
                  (''summary'', JString raw), (''sentiment'', JNull), (''actions'', JNull),
                  (''examples'', JNull)])"
    using rs len by (auto simp: process_feedback_def length_groupby)
next
  fix i e
  assume i: "i < length (groupby df)"
    and before: "\<forall>j<i. group_answered loads call_llm df j"
    and c: "call_llm i (feedback_prompt (snd (groupby df ! i))) = Inl e"
  have a: "process_group loads call_llm (0 + i) (groupby df ! i) = Inl e"
    using c by (cases "groupby df ! i") (auto simp: process_group_def)
  have b: "\<forall>j<i. \<exists>r. process_group loads call_llm (0 + j) (groupby df ! j) = Inr r"
    using before group_answered_Inr by simp
  show "process_feedback loads call_llm df = Inl e"
    unfolding process_feedback_def by (rule process_groups_raises [OF i a b])
qed

theorem process_feedback_parse_failures_isolated_witness:
  \<open>length (groupby sample_frame) = 2
   \<and> group_answered json_loads
         (\<lambda>i p. if i = 0 then Inr ''not json at all'' else Inr ''{"summary":"ok"}'')
         sample_frame 0
   \<and> group_answered json_loads
         (\<lambda>i p. if i = 0 then Inr ''not json at all'' else Inr ''{"summary":"ok"}'')
         sample_frame 1
   \<and> process_feedback json_loads
         (\<lambda>i p. if i = 0 then Inr ''not json at all'' else Inr ''{"summary":"ok"}'')
         sample_frame
       = Inr [JObject [(''instructor_id'', JInt 1), (''course_id'', JInt 10),
                       (''summary'', JString ''not json at all''), (''sentiment'', JNull),
                       (''actions'', JNull), (''examples'', JNull)],
              JObject [(''instructor_id'', JInt 2), (''course_id'', JInt 20),
                       (''summary'', JString ''ok''), (''sentiment'', JNull),
                       (''actions'', JNull), (''examples'', JNull)]]
   \<and> card (group_key ` set sample_frame) = 2
   \<and> process_feedback json_loads
         (\<lambda>i p. if i = 0 then Inr ''{"summary":"ok"}'' else Inl (ServiceError ''rate limit''))
         sample_frame
       = Inl (ServiceError ''rate limit'')\<close>
proof -
  let ?llm1 = \<open>(\<lambda>i p. if i = 0 then Inr ''not json at all'' else Inr ''{"summary":"ok"}'')
    :: completion\<close>
  let ?llm2 = \<open>(\<lambda>i p. if i = 0 then Inr ''{"summary":"ok"}''
    else Inl (ServiceError ''rate limit'')) :: completion\<close>
  have n: "length (groupby sample_frame) = 2" by code_simp
  have g0: "group_answered json_loads ?llm1 sample_frame 0" by code_simp
  have g1: "group_answered json_loads ?llm1 sample_frame 1" by code_simp
  have h: "\<forall>i<length (groupby sample_frame). group_answered json_loads ?llm1 sample_frame i"
    unfolding n using g0 g1 by (auto simp: less_Suc_eq numeral_2_eq_2)
  have v: \<open>process_feedback json_loads ?llm1 sample_frame
       = Inr [JObject [(''instructor_id'', JInt 1), (''course_id'', JInt 10),
                       (''summary'', JString ''not json at all''), (''sentiment'', JNull),
                       (''actions'', JNull), (''examples'', JNull)],
              JObject [(''instructor_id'', JInt 2), (''course_id'', JInt 20),
                       (''summary'', JString ''ok''), (''sentiment'', JNull),
                       (''actions'', JNull), (''examples'', JNull)]]\<close>
    by code_simp
  note t1 = process_feedback_parse_failures_isolated
    [where loads = json_loads and call_llm = ?llm1 and df = sample_frame]
  from t1 h obtain rs where "process_feedback json_loads ?llm1 sample_frame = Inr rs"
    and "length rs = card (group_key ` set sample_frame)" by blast
  with v have c: "card (group_key ` set sample_frame) = 2" by simp
  note t2 = process_feedback_parse_failures_isolated
    [where loads = json_loads and call_llm = ?llm2 and df = sample_frame]
  have b0: "group_answered json_loads ?llm2 sample_frame 0" by code_simp
  have b: "\<forall>j<1. group_answered json_loads ?llm2 sample_frame j" using b0 by simp
  have f: "?llm2 1 (feedback_prompt (snd (groupby sample_frame ! 1)))
      = Inl (ServiceError ''rate limit'')" by simp
  have "(1::nat) < length (groupby sample_frame)" unfolding n by simp
  with t2 b f have "process_feedback json_loads ?llm2 sample_frame
      = Inl (ServiceError ''rate limit'')" by blast
  with n g0 g1 v c show ?thesis by blast
qed

text \<open>
  C1 as stated fails: with two groups, a failure of the second completion call ends the
  batch with that exception and no rows; and a group whose response fails to parse has
  the raw response as its summary, not the error.
\<close>

theorem upstream_failure_counterexample:
  \<open>length (groupby sample_frame) = 2
   \<and> process_feedback json_loads
         (\<lambda>i p. if i = 0 then Inr ''{"summary":"ok"}'' else Inl (ServiceError ''rate limit''))
         sample_frame
       = Inl (ServiceError ''rate limit'')
   \<and> process_feedback json_loads
         (\<lambda>i p. if i = 0 then Inr ''not json at all'' else Inr ''{"summary":"ok"}'')
         sample_frame
       = Inr [JObject [(''instructor_id'', JInt 1), (''course_id'', JInt 10),
                       (''summary'', JString ''not json at all''), (''sentiment'', JNull),
                       (''actions'', JNull), (''examples'', JNull)],
              JObject [(''instructor_id'', JInt 2), (''course_id'', JInt 20),
                       (''summary'', JString ''ok''), (''sentiment'', JNull),
                       (''actions'', JNull), (''examples'', JNull)]]
   \<and> json_loads (cleaned_raw ''not json at all'') = Inl ''Expecting value''\<close>
  by code_simp

text \<open>
  C5, as the code has it. The rows of \<open>process_feedback\<close> come in strictly ascending order
  of the pair (instructor, course), compared first by instructor and then by course,
  one row for each pair that occurs in the frame: the order of \<open>groupby\<close>, not the order
  in which the pairs first occur.
\<close>

theorem process_feedback_sorted_keys:
  assumes "process_feedback loads call_llm df = Inr rs"
  shows "\<exists>ks. sorted_wrt (<) ks \<and> set ks = group_key ` set df \<and> length rs = length ks
    \<and> (\<forall>i<length ks.
          py_get (rs ! i) ''instructor_id'' = Inr (JInt (fst (ks ! i)))
        \<and> py_get (rs ! i) ''course_id'' = Inr (JInt (snd (ks ! i))))"
proof -
  from assms have rs: "process_groups loads call_llm 0 (groupby df) [] = Inr rs"
    by (simp add: process_feedback_def)
  note facts = process_groups_Inr [OF rs]
  let ?ks = "map fst (groupby df)"
  have "py_get (rs ! i) ''instructor_id'' = Inr (JInt (fst (?ks ! i)))
        \<and> py_get (rs ! i) ''course_id'' = Inr (JInt (snd (?ks ! i)))"
    if i: "i < length ?ks" for i
  proof -
    obtain inst course g where g: "groupby df ! i = ((inst, course), g)"
      by (metis surj_pair)
    from i facts have "process_group loads call_llm i (groupby df ! i) = Inr (rs ! i)"
      by simp
    from process_group_Inr [OF this [unfolded g]] obtain kvs where
      "result_row inst course (JObject kvs) = Inr (rs ! i)" by blast
    then have "rs ! i = JObject
            [(''instructor_id'', JInt inst), (''course_id'', JInt course),
             (''summary'', case map_of kvs ''summary'' of None \<Rightarrow> JNull | Some v \<Rightarrow> v),
             (''sentiment'', case map_of kvs ''sentiment'' of None \<Rightarrow> JNull | Some v \<Rightarrow> v),
             (''actions'', case map_of kvs ''actions'' of None \<Rightarrow> JNull | Some v \<Rightarrow> v),
             (''examples'', case map_of kvs ''example_quotes'' of None \<Rightarrow> JNull | Some v \<Rightarrow> v)]"
      by (simp add: result_row_def)
    then show ?thesis using i g by simp
  qed
  moreover have "length rs = length ?ks" using facts by simp
  ultimately show ?thesis using groupby_keys_sorted [of df] by blast
qed

theorem process_feedback_sorted_keys_witness:
  \<open>process_feedback json_loads (\<lambda>i p. Inr ''{}'') sample_frame
       = Inr [JObject [(''instructor_id'', JInt 1), (''course_id'', JInt 10),
                       (''summary'', JNull), (''sentiment'', JNull),
                       (''actions'', JNull), (''examples'', JNull)],
              JObject [(''instructor_id'', JInt 2), (''course_id'', JInt 20),
                       (''summary'', JNull), (''sentiment'', JNull),
                       (''actions'', JNull), (''examples'', JNull)]]
   \<and> (\<exists>ks. sorted_wrt (<) ks \<and> set ks = group_key ` set sample_frame \<and> length ks = 2)\<close>
proof -
  have v: \<open>process_feedback json_loads (\<lambda>i p. Inr ''{}'') sample_frame
       = Inr [JObject [(''instructor_id'', JInt 1), (''course_id'', JInt 10),
                       (''summary'', JNull), (''sentiment'', JNull),
                       (''actions'', JNull), (''examples'', JNull)],
              JObject [(''instructor_id'', JInt 2), (''course_id'', JInt 20),
                       (''summary'', JNull), (''sentiment'', JNull),
                       (''actions'', JNull), (''examples'', JNull)]]\<close>
    by code_simp
  from process_feedback_sorted_keys [OF v] obtain ks where
    "sorted_wrt (<) ks" "set ks = group_key ` set sample_frame"
    "length [JObject [(''instructor_id'', JInt 1), (''course_id'', JInt 10),
                       (''summary'', JNull), (''sentiment'', JNull),
                       (''actions'', JNull), (''examples'', JNull)],
              JObject [(''instructor_id'', JInt 2), (''course_id'', JInt 20),
                       (''summary'', JNull), (''sentiment'', JNull),
                       (''actions'', JNull), (''examples'', JNull)]] = length ks"
    by blast
  then have "sorted_wrt (<) ks \<and> set ks = group_key ` set sample_frame \<and> length ks = 2"
    by simp
  with v show ?thesis by blast
qed

text \<open>
  C5 as stated fails: the pair (2, 20) occurs first in the frame and its row comes last.
\<close>

theorem first_seen_order_counterexample:
  \<open>process_feedback json_loads (\<lambda>i p. Inr ''{}'') sample_frame
       = Inr [JObject [(''instructor_id'', JInt 1), (''course_id'', JInt 10),
                       (''summary'', JNull), (''sentiment'', JNull),
                       (''actions'', JNull), (''examples'', JNull)],
              JObject [(''instructor_id'', JInt 2), (''course_id'', JInt 20),
                       (''summary'', JNull), (''sentiment'', JNull),
                       (''actions'', JNull), (''examples'', JNull)]]
   \<and> first_seen (map group_key sample_frame) = [(2, 20), (1, 10)]\<close>
  by code_simp

text \<open>
  C8. \<open>process_feedback\<close> returns one row for each group of the frame, in the order of
  the groups, and every row belongs to its group: it
  carries the instructor and the course of the key of that group; the prompt of its
  completion call is the feedback template filled with the feedback texts of exactly the
  rows of that group, each prefixed with \<open>"- "\<close> and joined by newlines (cut at 2000
  characters); and its summary, sentiment and actions are the values of the mapping
  extracted from the response under the same keys, while its \<open>examples\<close> is the value under
  \<open>example_quotes\<close>.
\<close>

theorem process_feedback_rows_from_groups:
  assumes "process_feedback loads call_llm df = Inr rs" and "i < length rs"
  shows "\<exists>inst course g raw.
      length rs = length (groupby df)
    \<and> groupby df ! i = ((inst, course), g)
    \<and> g = filter (\<lambda>r. instructor_id r = inst \<and> course_id r = course) df
    \<and> g \<noteq> []
    \<and> call_llm i
          (fst FEEDBACK_PROMPT
           @ take 2000 (join ''\<newline>'' (map (\<lambda>x. ''- '' @ feedback_text x) g))
           @ snd FEEDBACK_PROMPT) = Inr raw
    \<and> py_get (rs ! i) ''instructor_id'' = Inr (JInt inst)
    \<and> py_get (rs ! i) ''course_id'' = Inr (JInt course)
    \<and> py_get (rs ! i) ''summary'' = py_get (parsed_feedback loads raw) ''summary''
    \<and> py_get (rs ! i) ''sentiment'' = py_get (parsed_feedback loads raw) ''sentiment''
    \<and> py_get (rs ! i) ''actions'' = py_get (parsed_feedback loads raw) ''actions''
    \<and> py_get (rs ! i) ''examples'' = py_get (parsed_feedback loads raw) ''example_quotes''
    \<and> keys (rs ! i)
        = [''instructor_id'', ''course_id'', ''summary'', ''sentiment'', ''actions'', ''examples'']"
proof -
  from assms have rs: "process_groups loads call_llm 0 (groupby df) [] = Inr rs"
    by (simp add: process_feedback_def)
  note facts = process_groups_Inr [OF rs]
  have len: "length rs = length (groupby df)" using facts by simp
  have i: "i < length (groupby df)" using assms(2) len by simp
  obtain inst course g where g: "groupby df ! i = ((inst, course), g)"
    by (metis surj_pair)
  let ?ks = "sort (remdups (map group_key df))"
  from groupby_nth [OF i] g have k: "?ks ! i = (inst, course)"
    and f: "g = filter (\<lambda>r. group_key r = (inst, course)) df" by simp_all
  have "i < length ?ks" using i by (simp add: groupby_def)
  then have "?ks ! i \<in> set ?ks" by (rule nth_mem)
  then have "(inst, course) \<in> group_key ` set df" using k by simp
  then have ne: "g \<noteq> []" unfolding f by (auto simp: filter_empty_conv)
  have f': "g = filter (\<lambda>r. instructor_id r = inst \<and> course_id r = course) df"
    unfolding f by (simp add: group_key_def)
  from i facts have "process_group loads call_llm i (groupby df ! i) = Inr (rs ! i)"
    by simp
  from process_group_Inr [OF this [unfolded g]] obtain raw kvs where
    c: "call_llm i (feedback_prompt g) = Inr raw"
    and p: "parsed_feedback loads raw = JObject kvs"
    and r: "result_row inst course (JObject kvs) = Inr (rs ! i)" by blast
  from r have row: "rs ! i = JObject
            [(''instructor_id'', JInt inst), (''course_id'', JInt course),
             (''summary'', case map_of kvs ''summary'' of None \<Rightarrow> JNull | Some v \<Rightarrow> v),
             (''sentiment'', case map_of kvs ''sentiment'' of None \<Rightarrow> JNull | Some v \<Rightarrow> v),
             (''actions'', case map_of kvs ''actions'' of None \<Rightarrow> JNull | Some v \<Rightarrow> v),
             (''examples'', case map_of kvs ''example_quotes'' of None \<Rightarrow> JNull | Some v \<Rightarrow> v)]"
    by (simp add: result_row_def)
  have c': "call_llm i
          (fst FEEDBACK_PROMPT
           @ take 2000 (join ''\<newline>'' (map (\<lambda>x. ''- '' @ feedback_text x) g))
           @ snd FEEDBACK_PROMPT) = Inr raw"
    using c by (simp add: feedback_prompt_def feedback_items_def format_prompt_def)
  show ?thesis
    apply (rule exI [of _ inst], rule exI [of _ course], rule exI [of _ g], rule exI [of _ raw])
    using len g f' ne c' by (simp add: row p)
qed

theorem process_feedback_rows_from_groups_witness:
  \<open>process_feedback json_loads
      (\<lambda>i p.
         if p = fst FEEDBACK_PROMPT @ ''- Great pace'' @ snd FEEDBACK_PROMPT
         then Inr ''{"summary":"pace","example_quotes":["Great pace"]}''
         else if p = fst FEEDBACK_PROMPT @ ''- Too fast\<newline>- More examples'' @ snd FEEDBACK_PROMPT
         then Inr ''{"summary":"speed","sentiment":"negative","actions":["Slow down"],"example_quotes":["Too fast"]}''
         else Inl (ServiceError ''unexpected prompt''))
      sample_frame
    = Inr [JObject [(''instructor_id'', JInt 1), (''course_id'', JInt 10),
                    (''summary'', JString ''pace''), (''sentiment'', JNull),
                    (''actions'', JNull),
                    (''examples'', JArray [JString ''Great pace''])],
           JObject [(''instructor_id'', JInt 2), (''course_id'', JInt 20),
                    (''summary'', JString ''speed''), (''sentiment'', JString ''negative''),
                    (''actions'', JArray [JString ''Slow down'']),
                    (''examples'', JArray [JString ''Too fast''])]]
   \<and> groupby sample_frame ! 1
       = ((2, 20), [\<lparr>instructor_id = 2, course_id = 20, feedback_text = ''Too fast''\<rparr>,
                    \<lparr>instructor_id = 2, course_id = 20, feedback_text = ''More examples''\<rparr>])
   \<and> (\<exists>raw.
         (if fst FEEDBACK_PROMPT @ ''- Too fast\<newline>- More examples'' @ snd FEEDBACK_PROMPT
             = fst FEEDBACK_PROMPT @ ''- Great pace'' @ snd FEEDBACK_PROMPT
          then Inr ''{"summary":"pace","example_quotes":["Great pace"]}''
          else Inr ''{"summary":"speed","sentiment":"negative","actions":["Slow down"],"example_quotes":["Too fast"]}'')
         = (Inr raw :: exn + string)
       \<and> py_get (parsed_feedback json_loads raw) ''example_quotes''
         = Inr (JArray [JString ''Too fast'']))\<close>
proof -
  let ?llm = \<open>(\<lambda>i p.
         if p = fst FEEDBACK_PROMPT @ ''- Great pace'' @ snd FEEDBACK_PROMPT
         then Inr ''{"summary":"pace","example_quotes":["Great pace"]}''
         else if p = fst FEEDBACK_PROMPT @ ''- Too fast\<newline>- More examples'' @ snd FEEDBACK_PROMPT
         then Inr ''{"summary":"speed","sentiment":"negative","actions":["Slow down"],"example_quotes":["Too fast"]}''
         else Inl (ServiceError ''unexpected prompt'')) :: completion\<close>
  let ?rs = "[JObject [(''instructor_id'', JInt 1), (''course_id'', JInt 10),
                    (''summary'', JString ''pace''), (''sentiment'', JNull),
                    (''actions'', JNull),
                    (''examples'', JArray [JString ''Great pace''])],
           JObject [(''instructor_id'', JInt 2), (''course_id'', JInt 20),
                    (''summary'', JString ''speed''), (''sentiment'', JString ''negative''),
                    (''actions'', JArray [JString ''Slow down'']),
                    (''examples'', JArray [JString ''Too fast''])]]"
  let ?g = "[\<lparr>instructor_id = 2, course_id = 20, feedback_text = ''Too fast''\<rparr>,
             \<lparr>instructor_id = 2, course_id = 20, feedback_text = ''More examples''\<rparr>]"
  have v: "process_feedback json_loads ?llm sample_frame = Inr ?rs" by code_simp
  have i: "1 < length ?rs" by simp
  have g: "groupby sample_frame ! 1 = ((2, 20), ?g)" by code_simp
  from process_feedback_rows_from_groups [OF v i] obtain inst course g' raw where
    g': "groupby sample_frame ! 1 = ((inst, course), g')"
    and c: "?llm 1
          (fst FEEDBACK_PROMPT
           @ take 2000 (join ''\<newline>'' (map (\<lambda>x. ''- '' @ feedback_text x) g'))
           @ snd FEEDBACK_PROMPT) = Inr raw"
    and x: "py_get (?rs ! 1) ''examples'' = py_get (parsed_feedback json_loads raw) ''example_quotes''"
    by blast
  from g g' have "g' = ?g" by simp
  with c have c2: "?llm 1
          (fst FEEDBACK_PROMPT @ ''- Too fast\<newline>- More examples'' @ snd FEEDBACK_PROMPT)
        = Inr raw"
    by simp
  from x have x2: "py_get (parsed_feedback json_loads raw) ''example_quotes''
         = Inr (JArray [JString ''Too fast''])"
    by simp
  from c2 x2 have \<open>\<exists>raw.
         (if fst FEEDBACK_PROMPT @ ''- Too fast\<newline>- More examples'' @ snd FEEDBACK_PROMPT
             = fst FEEDBACK_PROMPT @ ''- Great pace'' @ snd FEEDBACK_PROMPT
          then Inr ''{"summary":"pace","example_quotes":["Great pace"]}''
          else Inr ''{"summary":"speed","sentiment":"negative","actions":["Slow down"],"example_quotes":["Too fast"]}'')
         = (Inr raw :: exn + string)
       \<and> py_get (parsed_feedback json_loads raw) ''example_quotes''
         = Inr (JArray [JString ''Too fast''])\<close>
    by auto
  with v g show ?thesis by blast
qed

section \<open>The prompts\<close>

text \<open>
  C7. The text put into a template is cut to the budget of the template before it is
  substituted: the prompt of a group is the feedback template around the first 2000
  characters of the bulleted list of its feedback texts, and the prompt of a critique is
  the lecture template around the first 5000 characters of the transcript; these are the
  prompts the completion service is called with, so that nothing beyond the budget reaches
  it.
\<close>

theorem prompts_receive_truncated_text:
  "feedback_prompt g
     = fst FEEDBACK_PROMPT
       @ take 2000 (join ''\<newline>'' (map (\<lambda>x. ''- '' @ feedback_text x) g))
       @ snd FEEDBACK_PROMPT
   \<and> length (feedback_prompt g)
       \<le> length (fst FEEDBACK_PROMPT) + 2000 + length (snd FEEDBACK_PROMPT)
   \<and> process_group loads call_llm i ((inst, course), g)
     = (case call_llm i (fst FEEDBACK_PROMPT
              @ take 2000 (join ''\<newline>'' (map (\<lambda>x. ''- '' @ feedback_text x) g))
              @ snd FEEDBACK_PROMPT) of
          Inl e \<Rightarrow> Inl e
        | Inr raw \<Rightarrow> result_row inst course (parsed_feedback loads raw))
   \<and> lecture_prompt t = fst LECTURE_PROMPT @ take 5000 t @ snd LECTURE_PROMPT
   \<and> length (lecture_prompt t)
       \<le> length (fst LECTURE_PROMPT) + 5000 + length (snd LECTURE_PROMPT)
   \<and> analyze_transcript loads call_llm t
     = (case call_llm 0 (fst LECTURE_PROMPT @ take 5000 t @ snd LECTURE_PROMPT) of
          Inl e \<Rightarrow> Inl e
        | Inr raw \<Rightarrow> Inr (parsed_lecture loads raw))
   \<and> analyze_transcript loads call_llm (take 5000 t) = analyze_transcript loads call_llm t"
  by (simp add: feedback_prompt_def feedback_items_def lecture_prompt_def format_prompt_def
      process_group_def analyze_transcript_def)

theorem prompts_receive_truncated_text_witness:
  "take 2000 (feedback_items
      [\<lparr>instructor_id = 1, course_id = 10, feedback_text = replicate 2500 (CHR ''a'')\<rparr>])
     = ''- '' @ replicate 1998 (CHR ''a'')
   \<and> feedback_prompt
      [\<lparr>instructor_id = 1, course_id = 10, feedback_text = replicate 2500 (CHR ''a'')\<rparr>]
     = fst FEEDBACK_PROMPT @ (''- '' @ replicate 1998 (CHR ''a'')) @ snd FEEDBACK_PROMPT
   \<and> lecture_prompt (replicate 7000 (CHR ''b''))
     = fst LECTURE_PROMPT @ replicate 5000 (CHR ''b'') @ snd LECTURE_PROMPT"
  using prompts_receive_truncated_text [of
      "[\<lparr>instructor_id = 1, course_id = 10, feedback_text = replicate 2500 (CHR ''a'')\<rparr>]"
      _ _ _ _ _ "replicate 7000 (CHR ''b'')"]
  by (simp add: feedback_items_def)

section \<open>The cap on the transcript\<close>

text \<open>
  C6. For every text \<open>T\<close> and limit \<open>L\<close> (a number of characters), the truncation returns
  \<open>T\<close> unchanged when \<open>T\<close> has at most \<open>L\<close> characters, and otherwise the first \<open>L\<close>
  characters of \<open>T\<close> followed by the marker \<open>" ...[truncated]"\<close> of 15 characters, so
  that the result has \<open>L + 15\<close> characters; a text of 70000 characters cut at 60000 gives
  60015 characters. The truncation is a total function into the strings: it has no error
  result.
\<close>

theorem truncate_spec:
  "truncate T (int L) = (if length T \<le> L then T else take L T @ '' ...[truncated]'')
   \<and> length (truncate T (int L)) = (if length T \<le> L then length T else L + length '' ...[truncated]'')
   \<and> length '' ...[truncated]'' = 15
   \<and> (length T = 70000 \<longrightarrow> length (truncate T 60000) = 60000 + 15)
   \<and> (length (truncate T (int L)) \<le> L + 15)"
  by (auto simp: truncate_def slice_to_def)

theorem truncate_spec_witness:
  "length (replicate 70000 (CHR ''a'')) = 70000
   \<and> length (truncate (replicate 70000 (CHR ''a'')) 60000) = 60015
   \<and> truncate ''abcdef'' 4 = ''abcd ...[truncated]''
   \<and> truncate ''abcdef'' 6 = ''abcdef''"
  using truncate_spec [of "replicate 70000 (CHR ''a'')" 60000] truncate_spec [of "''abcdef''" 4]
    truncate_spec [of "''abcdef''" 6]
  by simp



text \<open>
  C9, as the code has it. The fetched transcript is the texts of the caption segments that
  are not blank (a segment whose text is empty or whitespace only is skipped), joined with
  single spaces; when no segment is blank that is the text of every segment. The cap of
  60000 characters, with the marker, is applied to the joined text, and the 5000-character
  budget of the lecture template is applied after it, to the capped text.
\<close>

theorem transcript_joined_then_capped:
  assumes "fetch video_id = Inr segs"
  shows "\<exists>text. fetch_youtube_transcript fetch video_id 60000 = Inr (truncate text 60000)
     \<and> text = join '' '' (map seg_text (filter (\<lambda>seg. strip (seg_text seg) \<noteq> []) segs))
     \<and> ((\<forall>seg\<in>set segs. strip (seg_text seg) \<noteq> []) \<longrightarrow>
          text = join '' '' (map seg_text segs))
     \<and> truncate text 60000
         = (if length text \<le> 60000 then text else take 60000 text @ '' ...[truncated]'')
     \<and> lecture_prompt (truncate text 60000) = lecture_prompt text"
proof -
  let ?text = "join '' '' (map seg_text (filter (\<lambda>seg. strip (seg_text seg) \<noteq> []) segs))"
  have a: "fetch_youtube_transcript fetch video_id 60000 = Inr (truncate ?text 60000)"
    using assms by (simp add: fetch_youtube_transcript_def)
  have b: "(\<forall>seg\<in>set segs. strip (seg_text seg) \<noteq> []) \<longrightarrow>
          ?text = join '' '' (map seg_text segs)"
    by (simp add: filter_id_conv)
  have c: "truncate ?text 60000
         = (if length ?text \<le> 60000 then ?text else take 60000 ?text @ '' ...[truncated]'')"
    by (auto simp: truncate_def slice_to_def)
  have "take 5000 (truncate ?text 60000) = take 5000 ?text"
    unfolding c by (simp add: min_def)
  then have d: "lecture_prompt (truncate ?text 60000) = lecture_prompt ?text"
    by (simp only: lecture_prompt_def)
  from a b c d show ?thesis by blast
qed

theorem transcript_joined_then_capped_witness:
  "strip ''hello'' = ''hello'' \<and> strip ''world'' = ''world''
   \<and> fetch_youtube_transcript
        (\<lambda>v. Inr [\<lparr>seg_text = ''hello''\<rparr>, \<lparr>seg_text = ''world''\<rparr>]) ''dQw4w9WgXcQ'' 60000
      = Inr ''hello world''"
proof -
  have s: "strip ''hello'' = ''hello''" "strip ''world'' = ''world''" by code_simp+
  have h: "\<forall>seg\<in>set [\<lparr>seg_text = ''hello''\<rparr>, \<lparr>seg_text = ''world''\<rparr>]. strip (seg_text seg) \<noteq> []"
    by (simp add: s)
  note t = transcript_joined_then_capped
    [where fetch = "\<lambda>v. Inr [\<lparr>seg_text = ''hello''\<rparr>, \<lparr>seg_text = ''world''\<rparr>]"
       and video_id = "''dQw4w9WgXcQ''"
       and segs = "[\<lparr>seg_text = ''hello''\<rparr>, \<lparr>seg_text = ''world''\<rparr>]"]
  from t h obtain joined where
    "fetch_youtube_transcript
        (\<lambda>v. Inr [\<lparr>seg_text = ''hello''\<rparr>, \<lparr>seg_text = ''world''\<rparr>]) ''dQw4w9WgXcQ'' 60000
      = Inr (truncate joined 60000)"
    "joined = join '' '' (map seg_text [\<lparr>seg_text = ''hello''\<rparr>, \<lparr>seg_text = ''world''\<rparr>])"
    by blast
  then have "fetch_youtube_transcript
        (\<lambda>v. Inr [\<lparr>seg_text = ''hello''\<rparr>, \<lparr>seg_text = ''world''\<rparr>]) ''dQw4w9WgXcQ'' 60000
      = Inr ''hello world''"
    by (simp add: truncate_def)
  with s show ?thesis by blast
qed

text \<open>
  C9 as stated fails: a blank segment between two others is left out, so the result is not
  the text of every segment joined with single spaces.
\<close>

theorem blank_segment_counterexample:
  "fetch_youtube_transcript
        (\<lambda>v. Inr [\<lparr>seg_text = ''hello''\<rparr>, \<lparr>seg_text = '' ''\<rparr>, \<lparr>seg_text = ''world''\<rparr>])
        ''dQw4w9WgXcQ'' 60000
      = Inr ''hello world''
   \<and> join '' '' (map seg_text [\<lparr>seg_text = ''hello''\<rparr>, \<lparr>seg_text = '' ''\<rparr>, \<lparr>seg_text = ''world''\<rparr>])
      = ''hello   world''"
  by code_simp

end
